theory Spec2Isabelle
  imports Main "HOL-Library.Option_ord" "HOL-Library.Multiset"
begin

section \<open>Data model\<close>

text \<open>
  A row of the remote table \<^verbatim>\<open>story_requests\<close>, as the screens read it. The home screen
  keeps its entries as untyped objects (\<^verbatim>\<open>useState<any[]>\<close>): an entry is either a row that a
  query returned or the placeholder \<^verbatim>\<open>{ id, status: 'queued', is_episode: false }\<close>, which has
  no other property. A property that an object may lack is an option here. Statuses are the
  string literals of the source. A timestamp is the number of milliseconds since the epoch
  (\<^verbatim>\<open>Date.now()\<close>); the store compares \<^verbatim>\<open>created_at\<close> as a point in time.
\<close>

record story_request =
  req_id :: string
  user_id :: "string option"
  status :: string
  created_at :: "int option"
  error_message :: "string option"
  is_episode :: "bool option"
  episode_number :: "nat option"

text \<open>An error object: \<^verbatim>\<open>error.name\<close> and \<^verbatim>\<open>error.message\<close>.\<close>

record js_error =
  err_name :: string
  err_message :: string

text \<open>What an awaited call of the store client does: it resolves to a value or it throws.\<close>

datatype 'a outcome = Resolved 'a | Threw js_error

section \<open>The home screen: the list of pending requests\<close>

text \<open>
  The state of \<^verbatim>\<open>HomeScreen\<close> that the pending banners depend on: the list
  \<^verbatim>\<open>pendingRequests\<close>, the ref \<^verbatim>\<open>processedRequestIdRef\<close>, the field
  \<^verbatim>\<open>newPendingRequestId\<close> of the wizard store, and what the screen has shown or logged:
  the dialogs of \<^verbatim>\<open>Alert.alert\<close> (title and message) and the labels of
  \<^verbatim>\<open>console.error\<close>. The \<^verbatim>\<open>console.log\<close> lines are debug output and are left out.
\<close>

record home_state =
  pendingRequests :: "story_request list"
  processedRequestIdRef :: "string option"
  newPendingRequestId :: "string option"
  alerts :: "(string \<times> string) list"
  console_errors :: "string list"

definition home_init :: home_state where
  "home_init = \<lparr>pendingRequests = [], processedRequestIdRef = None,
     newPendingRequestId = None, alerts = [], console_errors = []\<rparr>"

text \<open>The placeholder of line 36 of \<^verbatim>\<open>home.tsx\<close>.\<close>

definition placeholder :: "string \<Rightarrow> story_request" where
  "placeholder rid = \<lparr>req_id = rid, user_id = None, status = ''queued'', created_at = None,
     error_message = None, is_episode = Some False, episode_number = None\<rparr>"

text \<open>
  The updater that lines 35 to 38 pass to \<^verbatim>\<open>setPendingRequests\<close>: the placeholder in
  front of the previous entries without those of the same id.
\<close>

definition addPlaceholder :: "string \<Rightarrow> story_request list \<Rightarrow> story_request list" where
  "addPlaceholder rid prev = placeholder rid # filter (\<lambda>r. req_id r \<noteq> rid) prev"

text \<open>
  The effect of lines 30 to 44, run with the value that the store holds. A string is truthy
  when it is not empty, so neither \<^verbatim>\<open>null\<close> nor the empty string passes the guard. The
  call of \<^verbatim>\<open>loadPendingRequests()\<close> at the end is not awaited: its completion is a later
  step of the screen.
\<close>

definition handleNewPendingRequestId :: "string option \<Rightarrow> home_state \<Rightarrow> home_state" where
  "handleNewPendingRequestId v s =
     (case v of
        None \<Rightarrow> s\<lparr>newPendingRequestId := None\<rparr>
      | Some rid \<Rightarrow>
          if rid \<noteq> [] \<and> Some rid \<noteq> processedRequestIdRef s
          then s\<lparr>processedRequestIdRef := Some rid,
                 pendingRequests := addPlaceholder rid (pendingRequests s),
                 newPendingRequestId := None\<rparr>
          else s\<lparr>newPendingRequestId := Some rid\<rparr>)"

text \<open>
  \<^verbatim>\<open>trackNewRequest\<close>: the wizard puts the id of the request it created into the store,
  and the effect above runs.
\<close>

definition trackNewRequest :: "string \<Rightarrow> home_state \<Rightarrow> home_state" where
  "trackNewRequest rid s = handleNewPendingRequestId (Some rid) s"

subsection \<open>The query of \<^verbatim>\<open>loadPendingRequests\<close>\<close>

text \<open>The list of statuses that line 202 passes to \<^verbatim>\<open>.in('status', ...)\<close>.\<close>

definition pending_statuses :: "string list" where
  "pending_statuses = [''queued'', ''generating_text'', ''generating_images'', ''rendering_clips'']"

text \<open>
  The filters of lines 201 to 203. A comparison with a missing (null) value is not true in
  the store, so a row without \<^verbatim>\<open>user_id\<close> or \<^verbatim>\<open>created_at\<close> matches neither filter.
\<close>

definition eq_user_id :: "string \<Rightarrow> story_request \<Rightarrow> bool" where
  "eq_user_id uid r = (user_id r = Some uid)"

definition in_status :: "string list \<Rightarrow> story_request \<Rightarrow> bool" where
  "in_status sts r = (status r \<in> set sts)"

definition gte_created_at :: "int \<Rightarrow> story_request \<Rightarrow> bool" where
  "gte_created_at t r = (case created_at r of None \<Rightarrow> False | Some c \<Rightarrow> t \<le> c)"

text \<open>
  \<^verbatim>\<open>.order('created_at', { ascending: false })\<close>: newest first, rows without a timestamp
  before all others (the store's default for a descending order). The store does not say in
  which order it returns rows with equal timestamps; the model keeps them in the order of
  the table.
\<close>

definition order_created_at_desc :: "story_request list \<Rightarrow> story_request list" where
  "order_created_at_desc rows = sort_key (\<lambda>r. map_option uminus (created_at r)) rows"

text \<open>What the store answers to the query of lines 198 to 204 when it holds the rows \<open>tbl\<close>.\<close>

definition select_pending :: "string \<Rightarrow> int \<Rightarrow> story_request list \<Rightarrow> story_request list" where
  "select_pending uid tenMinutesAgo tbl =
     order_created_at_desc
       (filter (\<lambda>r. eq_user_id uid r \<and> in_status pending_statuses r
                     \<and> gte_created_at tenMinutesAgo r) tbl)"

text \<open>
  How the store behaves when the query is awaited: it holds a table and answers, it answers
  with \<^verbatim>\<open>error\<close> set (and \<^verbatim>\<open>data\<close> null), or the call throws.
\<close>

datatype remote = Table "story_request list" | QueryError js_error | QueryThrows js_error

text \<open>
  \<^verbatim>\<open>loadPendingRequests\<close> (lines 192 to 218) for the signed-in user \<open>uid\<close>, called
  when \<^verbatim>\<open>Date.now()\<close> is \<open>now\<close>. This is the reconciliation of the list with the
  store. A response without an error carries the array of rows, which may be empty, so
  \<^verbatim>\<open>pendingData || []\<close> is that array. Both failures end the same way: the label goes
  to \<^verbatim>\<open>console.error\<close> and the list is set to \<^verbatim>\<open>[]\<close>.
\<close>

definition loadPendingRequests :: "string \<Rightarrow> int \<Rightarrow> remote \<Rightarrow> home_state \<Rightarrow> home_state" where
  "loadPendingRequests uid now rem s =
     (let tenMinutesAgo = now - 10 * 60 * 1000 in
      case rem of
        Table tbl \<Rightarrow> s\<lparr>pendingRequests := select_pending uid tenMinutesAgo tbl\<rparr>
      | QueryError e \<Rightarrow>
          s\<lparr>console_errors := console_errors s @ [''Error loading pending requests:''],
            pendingRequests := []\<rparr>
      | QueryThrows e \<Rightarrow>
          s\<lparr>console_errors := console_errors s @ [''Error loading pending requests:''],
            pendingRequests := []\<rparr>)"

subsection \<open>Cancelling a request\<close>

text \<open>
  \<^verbatim>\<open>handleCancelRequest\<close> (lines 228 to 257) first asks the user. With \<open>Abbrechen\<close> the
  handler deletes the row; \<open>del\<close> is what the awaited delete does (it resolves to the
  \<^verbatim>\<open>error\<close> of the response, or it throws). A response with an error is thrown again and
  caught by the same handler. After a successful delete the handler calls
  \<^verbatim>\<open>loadPendingRequests()\<close> without awaiting it: a later step of the screen. The
  umlauts of the dialog text are written out as two letters.
\<close>

datatype choice = Nein | Abbrechen

definition cancel_dialog :: "string \<times> string" where
  "cancel_dialog = (''Erstellung abbrechen'', ''Moechtest du die Erstellung wirklich abbrechen? Verbrauchte Muenzen werden nicht erstattet.'')"

definition cancel_failed_alert :: "string \<times> string" where
  "cancel_failed_alert = (''Fehler'', ''Konnte nicht abgebrochen werden.'')"

definition cancel_catch :: "home_state \<Rightarrow> home_state" where
  "cancel_catch s =
     s\<lparr>console_errors := console_errors s @ [''Error cancelling request:''],
       alerts := alerts s @ [cancel_failed_alert]\<rparr>"

definition handleCancelRequest ::
  "string \<Rightarrow> choice \<Rightarrow> js_error option outcome \<Rightarrow> home_state \<Rightarrow> home_state" where
  "handleCancelRequest requestId c del s =
     (let s1 = s\<lparr>alerts := alerts s @ [cancel_dialog]\<rparr> in
      case c of
        Nein \<Rightarrow> s1
      | Abbrechen \<Rightarrow>
          (case del of
             Resolved None \<Rightarrow>
               s1\<lparr>pendingRequests := filter (\<lambda>r. req_id r \<noteq> requestId) (pendingRequests s1)\<rparr>
           | Resolved (Some e) \<Rightarrow> cancel_catch s1
           | Threw e \<Rightarrow> cancel_catch s1))"

subsection \<open>The steps of the home screen\<close>

text \<open>
  The screen is driven by events, each handled in one synchronous block: the wizard store
  changes, a call of \<^verbatim>\<open>loadPendingRequests\<close> completes (started by a focus, by a push
  notification of the store, or by one of the two handlers above), or the user answers the
  cancel dialog and the delete completes.
\<close>

datatype home_event =
    NewPendingRequestId "string option"
  | LoadPendingRequests string int remote
  | HandleCancelRequest string choice "js_error option outcome"

fun home_step :: "home_state \<Rightarrow> home_event \<Rightarrow> home_state" where
  "home_step s (NewPendingRequestId v) = handleNewPendingRequestId v s"
| "home_step s (LoadPendingRequests uid now rem) = loadPendingRequests uid now rem s"
| "home_step s (HandleCancelRequest requestId c del) = handleCancelRequest requestId c del s"

definition home_run :: "home_event list \<Rightarrow> home_state \<Rightarrow> home_state" where
  "home_run evs s = foldl home_step s evs"

text \<open>
  The store keys \<^verbatim>\<open>story_requests\<close> by \<^verbatim>\<open>id\<close>: a table that answers a query holds
  each id once.
\<close>

fun keyed_by_id :: "home_event \<Rightarrow> bool" where
  "keyed_by_id (LoadPendingRequests uid now (Table tbl)) = distinct (map req_id tbl)"
| "keyed_by_id ev = True"

text \<open>The entries of a list that have the id \<open>rid\<close>.\<close>

definition entries_for :: "string \<Rightarrow> story_request list \<Rightarrow> story_request list" where
  "entries_for rid view = filter (\<lambda>r. req_id r = rid) view"

section \<open>The generating screen: starting the generation\<close>

text \<open>
  What \<^verbatim>\<open>GeneratingScreen\<close> does to the outside, in the order in which it does it: an
  update of the row of a request, the invocation of the edge function \<^verbatim>\<open>create-story\<close>
  for a request, and the lines it writes to the console. An update is recorded with the id,
  the new status, the new \<^verbatim>\<open>error_message\<close> when the update sets one, and what the
  awaited call did: the store accepted the update (\<open>Resolved None\<close>), the store answered
  with an error, which the screen never looks at (\<open>Resolved (Some e)\<close>), or the call threw.
\<close>

datatype effect =
    UpdateRequest string string "string option" "js_error option outcome"
  | InvokeCreateStory string
  | ConsoleError string
  | ConsoleLog string

fun is_invoke :: "effect \<Rightarrow> bool" where
  "is_invoke (InvokeCreateStory rid) = True"
| "is_invoke e = False"

fun is_update :: "effect \<Rightarrow> bool" where
  "is_update (UpdateRequest rid st msg out) = True"
| "is_update e = False"

text \<open>\<^verbatim>\<open>String.prototype.includes\<close>: \<open>sub\<close> occurs in \<open>s\<close> as a contiguous part.\<close>

fun str_includes :: "string \<Rightarrow> string \<Rightarrow> bool" where
  "str_includes [] sub = (sub = [])"
| "str_includes (c # cs) sub = (take (length sub) (c # cs) = sub \<or> str_includes cs sub)"

text \<open>
  What the awaited calls of \<^verbatim>\<open>startStoryGeneration\<close> do: the update to
  \<^verbatim>\<open>processing\<close> (line 108), the invocation (line 114), the update to \<^verbatim>\<open>failed\<close>
  inside the \<^verbatim>\<open>try\<close> block (line 122) and the update to \<^verbatim>\<open>failed\<close> inside the
  \<^verbatim>\<open>catch\<close> block (line 140). Each resolves to the \<^verbatim>\<open>error\<close> of its response, or
  throws. Only the \<^verbatim>\<open>error\<close> of the invocation is read; that of an update is dropped and
  the function goes on.
\<close>

record start_env =
  update_processing :: "js_error option outcome"
  invoke :: "js_error option outcome"
  update_failed :: "js_error option outcome"
  update_failed_catch :: "js_error option outcome"

text \<open>
  The \<^verbatim>\<open>catch\<close> block of lines 133 to 147. Its update is the last thing the function
  does, whatever that update does.
\<close>

definition start_catch :: "string \<Rightarrow> start_env \<Rightarrow> js_error \<Rightarrow> effect list" where
  "start_catch requestId env e =
     (if err_name e = ''FunctionsFetchError'' \<or> str_includes (err_message e) ''Failed to send''
      then [ConsoleLog ''Request timeout - function continues in background'']
      else [ConsoleError ''Error starting story generation:'',
            UpdateRequest requestId ''failed''
              (Some (if err_message e \<noteq> [] then err_message e else ''Unbekannter Fehler''))
              (update_failed_catch env)])"

text \<open>\<^verbatim>\<open>startStoryGeneration\<close> (lines 105 to 148): the effects of one call, in order.\<close>

definition startStoryGeneration :: "string \<Rightarrow> start_env \<Rightarrow> effect list" where
  "startStoryGeneration requestId env =
     UpdateRequest requestId ''processing'' None (update_processing env) #
     (case update_processing env of
        Threw e \<Rightarrow> start_catch requestId env e
      | Resolved u \<Rightarrow>
          InvokeCreateStory requestId #
          (case invoke env of
             Threw e \<Rightarrow> start_catch requestId env e
           | Resolved None \<Rightarrow> []
           | Resolved (Some err) \<Rightarrow>
               if err_name err \<noteq> ''FunctionsFetchError''
               then ConsoleError ''Edge function error:'' #
                    UpdateRequest requestId ''failed'' (Some (err_message err))
                      (update_failed env) #
                    (case update_failed env of
                       Threw e \<Rightarrow> start_catch requestId env e
                     | Resolved u \<Rightarrow> [])
               else [ConsoleLog ''Edge function timeout - function continues in background'']))"

text \<open>
  The state of the screen: the row it shows, the ref \<^verbatim>\<open>hasStartedGeneration\<close>, and the
  effects so far.
\<close>

record generating_state =
  request :: "story_request option"
  hasStartedGeneration :: bool
  effects :: "effect list"

definition generating_init :: generating_state where
  "generating_init = \<lparr>request = None, hasStartedGeneration = False, effects = []\<rparr>"

text \<open>
  \<^verbatim>\<open>loadRequest\<close> (lines 87 to 103) from the point where the awaited query has answered
  with \<open>data\<close>; \<open>requestId\<close> is the route parameter at that time. The test of the ref, its
  assignment and the call of \<^verbatim>\<open>startStoryGeneration\<close> are one synchronous block. The
  call is not awaited and the rest of it runs later, but it neither reads nor writes the
  state of the screen, so its effects are recorded with the step that made the call; \<open>env\<close>
  says what its awaited calls will do.
\<close>

definition loadRequest ::
  "string \<Rightarrow> story_request option \<Rightarrow> start_env \<Rightarrow> generating_state \<Rightarrow> generating_state" where
  "loadRequest requestId data env s =
     (case data of
        None \<Rightarrow> s
      | Some d \<Rightarrow>
          (let s1 = s\<lparr>request := Some d\<rparr> in
           if status d = ''queued'' \<and> \<not> hasStartedGeneration s1
           then s1\<lparr>hasStartedGeneration := True,
                  effects := effects s1 @ startStoryGeneration requestId env\<rparr>
           else s1))"

text \<open>
  The events of the screen: a call of \<^verbatim>\<open>loadRequest\<close> gets its answer (the call was made
  on mount, on a change of the route parameter or on focus), or the subscription delivers
  an update of the row (lines 49 to 51).
\<close>

datatype generating_event =
    LoadRequest string "story_request option" start_env
  | RealtimeUpdate story_request

fun generating_step :: "generating_state \<Rightarrow> generating_event \<Rightarrow> generating_state" where
  "generating_step s (LoadRequest requestId data env) = loadRequest requestId data env s"
| "generating_step s (RealtimeUpdate new) = s\<lparr>request := Some new\<rparr>"

definition generating_run :: "generating_event list \<Rightarrow> generating_state \<Rightarrow> generating_state" where
  "generating_run evs s = foldl generating_step s evs"

text \<open>Line 169: the screen shows the failure when the row it holds has status \<^verbatim>\<open>failed\<close>.\<close>

definition isFailed :: "generating_state \<Rightarrow> bool" where
  "isFailed s = (case request s of None \<Rightarrow> False | Some r \<Rightarrow> status r = ''failed'')"

subsection \<open>The effects on the table\<close>

text \<open>
  \<^verbatim>\<open>.update({...}).eq('id', requestId)\<close> on a table, when the store accepts it: the rows
  with that id get the new status, and the new message when the update has one.
\<close>

definition update_row ::
  "string \<Rightarrow> string \<Rightarrow> string option \<Rightarrow> story_request list \<Rightarrow> story_request list" where
  "update_row rid st msg tbl =
     map (\<lambda>r. if req_id r = rid
              then r\<lparr>status := st,
                     error_message := (case msg of None \<Rightarrow> error_message r | Some m \<Rightarrow> Some m)\<rparr>
              else r) tbl"

text \<open>
  What an effect of the screen does to the table. Only an update that the store accepted
  changes it: an update that the store answered with an error, or whose call threw, leaves
  the table as it was. The other effects leave the table of requests as it is, as far as
  the screen knows.
\<close>

fun apply_effect :: "story_request list \<Rightarrow> effect \<Rightarrow> story_request list" where
  "apply_effect tbl (UpdateRequest rid st msg (Resolved None)) = update_row rid st msg tbl"
| "apply_effect tbl e = tbl"

definition apply_effects :: "effect list \<Rightarrow> story_request list \<Rightarrow> story_request list" where
  "apply_effects es tbl = foldl apply_effect tbl es"

text \<open>The effects that follow the invocation of the edge function.\<close>

definition after_invoke :: "effect list \<Rightarrow> effect list" where
  "after_invoke es = tl (dropWhile (\<lambda>e. \<not> is_invoke e) es)"

fun is_console_error :: "effect \<Rightarrow> bool" where
  "is_console_error (ConsoleError l) = True"
| "is_console_error e = False"

text \<open>
  The invariant behind the ref: the edge function has been invoked at most once, and not at
  all while the ref is still false.
\<close>

definition start_inv :: "generating_state \<Rightarrow> bool" where
  "start_inv s =
     (length (filter is_invoke (effects s)) \<le> (if hasStartedGeneration s then 1 else 0))"

section \<open>The specification's reading of the reconciliation\<close>

text \<open>
  The specification names five statuses as not terminal and asks that the reconciled list
  hold the rows of the user with one of them, created within the last ten minutes. The
  definition below follows its words, to be compared with \<open>select_pending\<close>.
\<close>

definition spec_non_terminal_statuses :: "string list" where
  "spec_non_terminal_statuses =
     [''queued'', ''processing'', ''generating_text'', ''generating_images'', ''rendering_clips'']"

definition spec_visible :: "string \<Rightarrow> int \<Rightarrow> story_request list \<Rightarrow> story_request \<Rightarrow> bool" where
  "spec_visible uid now tbl r =
     (r \<in> set tbl \<and> user_id r = Some uid \<and> status r \<in> set spec_non_terminal_statuses
      \<and> Some (now - 10 * 60 * 1000) \<le> created_at r)"

section \<open>Example data\<close>

definition example_row :: "string \<Rightarrow> string \<Rightarrow> string \<Rightarrow> int \<Rightarrow> story_request" where
  "example_row rid uid st c = \<lparr>req_id = rid, user_id = Some uid, status = st,
     created_at = Some c, error_message = None, is_episode = Some False,
     episode_number = None\<rparr>"

text \<open>
  A table read at time 1000000, so that the ten minutes begin at 400000: two rows to show,
  one that is too old, one that is finished, one that is \<^verbatim>\<open>processing\<close>, and one of
  another user.
\<close>

definition processing_row :: story_request where
  "processing_row = example_row ''r5'' ''u1'' ''processing'' 950000"

definition example_table :: "story_request list" where
  "example_table =
     [example_row ''r1'' ''u1'' ''queued'' 500000,
      example_row ''r2'' ''u1'' ''generating_text'' 900000,
      example_row ''r3'' ''u1'' ''queued'' 100000,
      example_row ''r4'' ''u1'' ''finished'' 950000,
      processing_row,
      example_row ''r6'' ''u2'' ''queued'' 990000]"

definition timeout_error :: js_error where
  "timeout_error = \<lparr>err_name = ''FunctionsFetchError'',
     err_message = ''Failed to send a request to the Edge Function''\<rparr>"

definition http_error :: js_error where
  "http_error = \<lparr>err_name = ''FunctionsHttpError'',
     err_message = ''Edge Function returned a non-2xx status code''\<rparr>"

definition store_error :: js_error where
  "store_error = \<lparr>err_name = ''PostgrestError'', err_message = ''connection refused''\<rparr>"

text \<open>The store accepts every update, and the invocation does \<open>out\<close>.\<close>

definition env_of :: "js_error option outcome \<Rightarrow> start_env" where
  "env_of out = \<lparr>update_processing = Resolved None, invoke = out,
     update_failed = Resolved None, update_failed_catch = Resolved None\<rparr>"

text \<open>
  A table with one request of the user, created 500 seconds before the reconciliations at
  1000000, and the home screen after it has tracked \<open>r5\<close> and reconciled with the
  example table, where \<open>r5\<close> is \<^verbatim>\<open>processing\<close>.
\<close>

definition queued_table :: "story_request list" where
  "queued_table = [example_row ''r1'' ''u1'' ''queued'' 500000]"

definition tracked_and_reconciled :: home_state where
  "tracked_and_reconciled =
     home_run [NewPendingRequestId (Some ''r5''),
               LoadPendingRequests ''u1'' 1000000 (Table example_table)] home_init"

text \<open>
  Two calls of \<^verbatim>\<open>loadRequest\<close> that both read the row as \<^verbatim>\<open>queued\<close>, with an update
  from the subscription between them.
\<close>

definition example_loads :: "generating_event list" where
  "example_loads =
     [LoadRequest ''r1'' (Some (example_row ''r1'' ''u1'' ''queued'' 500000)) (env_of (Resolved None)),
      RealtimeUpdate (example_row ''r1'' ''u1'' ''processing'' 500000),
      LoadRequest ''r1'' (Some (example_row ''r1'' ''u1'' ''queued'' 500000)) (env_of (Resolved None))]"

text \<open>A run of the home screen: a new request, two reconciliations, a repeated id, a cancel.\<close>

definition example_home_events :: "home_event list" where
  "example_home_events =
     [NewPendingRequestId (Some ''r1''),
      NewPendingRequestId None,
      LoadPendingRequests ''u1'' 1000000 (Table example_table),
      NewPendingRequestId (Some ''r2''),
      LoadPendingRequests ''u1'' 1000000 (QueryError store_error),
      NewPendingRequestId (Some ''r1''),
      HandleCancelRequest ''r2'' Abbrechen (Resolved None)]"

section \<open>The start of the generation happens at most once\<close>

lemma invokes_start_catch: "filter is_invoke (start_catch rid env e) = []"
  by (simp add: start_catch_def)

lemma invokes_startStoryGeneration:
  "length (filter is_invoke (startStoryGeneration rid env)) \<le> 1"
  by (simp add: startStoryGeneration_def invokes_start_catch split: outcome.splits option.splits)

lemma start_inv_init: "start_inv generating_init"
  by (simp add: start_inv_def generating_init_def)

lemma start_inv_loadRequest: "start_inv s \<Longrightarrow> start_inv (loadRequest rid data env s)"
  using invokes_startStoryGeneration [of rid env]
  by (auto simp: start_inv_def loadRequest_def Let_def split: option.splits if_splits)

lemma start_inv_step: "start_inv s \<Longrightarrow> start_inv (generating_step s ev)"
  by (cases ev) (simp_all add: start_inv_loadRequest, simp add: start_inv_def)

lemma start_inv_run: "start_inv s \<Longrightarrow> start_inv (generating_run evs s)"
  unfolding generating_run_def
  by (induction evs arbitrary: s) (simp_all add: start_inv_step)

lemma count_invoke_le: "count_list es (InvokeCreateStory rid) \<le> length (filter is_invoke es)"
  by (induction es) auto

lemma loadRequest_started:
  "hasStartedGeneration s \<Longrightarrow> effects (loadRequest requestId data env s) = effects s"
  by (simp add: loadRequest_def Let_def split: option.splits)

lemma started_run_effects:
  "hasStartedGeneration s \<Longrightarrow>
     effects (generating_run evs s) = effects s \<and> hasStartedGeneration (generating_run evs s)"
  unfolding generating_run_def
proof (induction evs arbitrary: s)
  case Nil
  then show ?case by simp
next
  case (Cons ev evs)
  have "hasStartedGeneration (generating_step s ev) \<and> effects (generating_step s ev) = effects s"
    using Cons.prems by (cases ev) (simp_all add: loadRequest_def Let_def split: option.splits)
  then show ?case
    using Cons.IH [of "generating_step s ev"] by simp
qed

text \<open>
  C1. Within one lifetime of the generating screen, whatever calls of \<^verbatim>\<open>loadRequest\<close>
  complete, in whatever order and with whatever rows, and whatever the subscription
  delivers, the edge function is invoked at most once for every request id, and at most
  once at all. Whenever it has been invoked the ref \<^verbatim>\<open>hasStartedGeneration\<close> is set, and a
  call of \<^verbatim>\<open>loadRequest\<close> that finds the ref set has no effect to the outside.
\<close>

theorem start_generation_at_most_once:
  "count_list (effects (generating_run evs generating_init)) (InvokeCreateStory rid) \<le> 1
   \<and> length (filter is_invoke (effects (generating_run evs generating_init))) \<le> 1
   \<and> (filter is_invoke (effects (generating_run evs generating_init)) \<noteq> []
        \<longrightarrow> hasStartedGeneration (generating_run evs generating_init))
   \<and> (hasStartedGeneration s \<longrightarrow> effects (loadRequest requestId data env s) = effects s)"
proof -
  let ?s = "generating_run evs generating_init"
  have inv: "start_inv ?s"
    by (rule start_inv_run [OF start_inv_init])
  have one: "length (filter is_invoke (effects ?s)) \<le> 1"
    using inv by (simp add: start_inv_def split: if_splits)
  have cnt: "count_list (effects ?s) (InvokeCreateStory rid) \<le> 1"
    using count_invoke_le [of "effects ?s" rid] one by linarith
  have flag: "filter is_invoke (effects ?s) \<noteq> [] \<longrightarrow> hasStartedGeneration ?s"
    using inv by (auto simp: start_inv_def split: if_splits)
  show ?thesis
    using one cnt flag loadRequest_started by blast
qed

theorem start_generation_at_most_once_witness:
  "filter is_invoke (effects (generating_run example_loads generating_init)) =
     [InvokeCreateStory ''r1'']
   \<and> count_list (effects (generating_run example_loads generating_init))
         (InvokeCreateStory ''r1'') \<le> 1
   \<and> hasStartedGeneration (generating_run example_loads generating_init)
   \<and> effects (loadRequest ''r1'' (Some (example_row ''r1'' ''u1'' ''queued'' 500000))
        (env_of (Resolved None)) (generating_run example_loads generating_init))
      = effects (generating_run example_loads generating_init)"
  using start_generation_at_most_once [of example_loads "''r1''"
      "generating_run example_loads generating_init" "''r1''"
      "Some (example_row ''r1'' ''u1'' ''queued'' 500000)" "env_of (Resolved None)"]
  by (simp add: example_loads_def generating_run_def generating_init_def loadRequest_def
      startStoryGeneration_def env_of_def example_row_def)

text \<open>
  C8. A call of \<^verbatim>\<open>loadRequest\<close> that reads a status other than \<^verbatim>\<open>queued\<close>, so in
  particular \<^verbatim>\<open>finished\<close> or \<^verbatim>\<open>failed\<close>, invokes nothing and leaves the ref as it is.
\<close>

theorem start_requires_queued:
  "status d \<noteq> ''queued'' \<Longrightarrow>
     effects (loadRequest requestId (Some d) env s) = effects s
     \<and> hasStartedGeneration (loadRequest requestId (Some d) env s) = hasStartedGeneration s"
  by (simp add: loadRequest_def Let_def)

theorem start_requires_queued_witness:
  "status (example_row ''r1'' ''u1'' ''finished'' 500000) \<noteq> ''queued''
   \<and> effects (loadRequest ''r1'' (Some (example_row ''r1'' ''u1'' ''finished'' 500000))
        (env_of (Resolved None)) generating_init) = []
   \<and> \<not> hasStartedGeneration
        (loadRequest ''r1'' (Some (example_row ''r1'' ''u1'' ''finished'' 500000))
          (env_of (Resolved None)) generating_init)"
proof -
  have h: "status (example_row ''r1'' ''u1'' ''finished'' 500000) \<noteq> ''queued''"
    by (simp add: example_row_def)
  show ?thesis
    using h start_requires_queued [OF h, of "''r1''" "env_of (Resolved None)" generating_init]
    by (simp add: generating_init_def)
qed

section \<open>The list of pending requests\<close>

lemma loadPendingRequests_Table:
  "pendingRequests (loadPendingRequests uid now (Table tbl) s) = select_pending uid (now - 600000) tbl"
  by (simp add: loadPendingRequests_def)

lemma loadPendingRequests_failed:
  "rem = QueryError e \<or> rem = QueryThrows e \<Longrightarrow>
     loadPendingRequests uid now rem s =
       s\<lparr>console_errors := console_errors s @ [''Error loading pending requests:''],
         pendingRequests := []\<rparr>"
  by (auto simp: loadPendingRequests_def)

lemma select_pending_filter:
  "(eq_user_id uid r \<and> in_status pending_statuses r \<and> gte_created_at t r) =
   (user_id r = Some uid
    \<and> status r \<in> {''queued'', ''generating_text'', ''generating_images'', ''rendering_clips''}
    \<and> Some t \<le> created_at r)"
  by (cases "created_at r")
     (auto simp: eq_user_id_def in_status_def pending_statuses_def gte_created_at_def)

lemma mset_select_pending:
  "mset (select_pending uid t tbl) =
     filter_mset (\<lambda>r. user_id r = Some uid
        \<and> status r \<in> {''queued'', ''generating_text'', ''generating_images'', ''rendering_clips''}
        \<and> Some t \<le> created_at r) (mset tbl)"
  by (simp add: select_pending_def order_created_at_desc_def select_pending_filter)

lemma set_select_pending:
  "set (select_pending uid t tbl) =
     {r \<in> set tbl. user_id r = Some uid
        \<and> status r \<in> {''queued'', ''generating_text'', ''generating_images'', ''rendering_clips''}
        \<and> Some t \<le> created_at r}"
  by (simp add: select_pending_def order_created_at_desc_def select_pending_filter)

lemma neg_key_le:
  "Some t \<le> created_at a \<Longrightarrow> Some t \<le> created_at b \<Longrightarrow>
   map_option uminus (created_at a) \<le> map_option uminus (created_at b) \<Longrightarrow>
   created_at b \<le> created_at a"
  by (cases "created_at a"; cases "created_at b") simp_all

lemma sorted_select_pending:
  "sorted_wrt (\<lambda>a b. created_at b \<le> created_at a) (select_pending uid t tbl)"
proof -
  let ?k = "\<lambda>r::story_request. map_option uminus (created_at r)"
  let ?res = "select_pending uid t tbl"
  have "sorted (map ?k ?res)"
    by (simp add: select_pending_def order_created_at_desc_def)
  then have "sorted_wrt (\<lambda>a b. ?k a \<le> ?k b) ?res"
    by (simp add: sorted_map)
  moreover have "\<And>a b. a \<in> set ?res \<Longrightarrow> b \<in> set ?res \<Longrightarrow> ?k a \<le> ?k b
      \<Longrightarrow> created_at b \<le> created_at a"
    unfolding set_select_pending by (blast intro: neg_key_le)
  ultimately show ?thesis
    by (rule sorted_wrt_mono_rel [rotated])
qed

lemma entries_for_addPlaceholder:
  "entries_for rid (addPlaceholder rid view) = [placeholder rid]"
  by (simp add: entries_for_def addPlaceholder_def placeholder_def filter_empty_conv)

lemma distinct_ids_track:
  "distinct (map req_id view) \<Longrightarrow> distinct (map req_id (addPlaceholder rid view))"
  by (auto simp: addPlaceholder_def placeholder_def distinct_map_filter)

lemma distinct_ids_select:
  assumes "distinct (map req_id tbl)"
  shows "distinct (map req_id (select_pending uid t tbl))"
proof -
  have "distinct (map req_id (filter P tbl))" for P
    using assms by (rule distinct_map_filter)
  then show ?thesis
    by (simp add: select_pending_def order_created_at_desc_def distinct_map)
qed

lemma distinct_ids_step:
  "distinct (map req_id (pendingRequests s)) \<Longrightarrow> keyed_by_id ev \<Longrightarrow>
   distinct (map req_id (pendingRequests (home_step s ev)))"
proof (cases ev)
  case (NewPendingRequestId v)
  assume "distinct (map req_id (pendingRequests s))"
  then show ?thesis
    using NewPendingRequestId distinct_ids_track [of "pendingRequests s"]
    by (auto simp: handleNewPendingRequestId_def split: option.splits)
next
  case (LoadPendingRequests uid now rem)
  assume "keyed_by_id ev"
  then show ?thesis
    using LoadPendingRequests
    by (cases rem) (simp_all add: loadPendingRequests_def distinct_ids_select)
next
  case (HandleCancelRequest requestId c del)
  assume "distinct (map req_id (pendingRequests s))"
  then show ?thesis
    using HandleCancelRequest
    by (auto simp: handleCancelRequest_def cancel_catch_def Let_def distinct_map_filter
             split: choice.splits outcome.splits option.splits)
qed

lemma distinct_ids_run:
  "distinct (map req_id (pendingRequests s)) \<Longrightarrow> \<forall>ev \<in> set evs. keyed_by_id ev \<Longrightarrow>
   distinct (map req_id (pendingRequests (home_run evs s)))"
  unfolding home_run_def
  by (induction evs arbitrary: s) (simp_all add: distinct_ids_step)

lemma distinct_ids_entries:
  "distinct (map req_id view) \<Longrightarrow> length (entries_for rid view) \<le> 1"
  unfolding entries_for_def
  by (induction view) (auto simp: filter_empty_conv image_iff)

text \<open>
  C2, as the code has it. A reconciliation that the store answers replaces the list,
  whatever it held, with exactly the rows of the user whose status is one of
  \<^verbatim>\<open>queued\<close>, \<^verbatim>\<open>generating_text\<close>, \<^verbatim>\<open>generating_images\<close> and
  \<^verbatim>\<open>rendering_clips\<close> and whose \<^verbatim>\<open>created_at\<close> is at most ten minutes before the call,
  each as often as the table holds it, newest first. No row with status
  \<^verbatim>\<open>processing\<close> is in the list.
\<close>

theorem reconcile_replaces_view:
  "mset (pendingRequests (loadPendingRequests uid now (Table tbl) s)) =
     filter_mset (\<lambda>r. user_id r = Some uid
        \<and> status r \<in> {''queued'', ''generating_text'', ''generating_images'', ''rendering_clips''}
        \<and> Some (now - 600000) \<le> created_at r) (mset tbl)
   \<and> set (pendingRequests (loadPendingRequests uid now (Table tbl) s)) =
     {r \<in> set tbl. user_id r = Some uid
        \<and> status r \<in> {''queued'', ''generating_text'', ''generating_images'', ''rendering_clips''}
        \<and> Some (now - 600000) \<le> created_at r}
   \<and> sorted_wrt (\<lambda>a b. created_at b \<le> created_at a)
        (pendingRequests (loadPendingRequests uid now (Table tbl) s))
   \<and> (\<forall>r \<in> set (pendingRequests (loadPendingRequests uid now (Table tbl) s)).
        status r \<noteq> ''processing'')"
  unfolding loadPendingRequests_Table
  by (simp add: mset_select_pending sorted_select_pending) (auto simp: set_select_pending)

theorem reconcile_replaces_view_witness:
  "pendingRequests (loadPendingRequests ''u1'' 1000000 (Table example_table) home_init) =
     [example_row ''r2'' ''u1'' ''generating_text'' 900000,
      example_row ''r1'' ''u1'' ''queued'' 500000]
   \<and> (sorted_wrt (\<lambda>a b. created_at b \<le> created_at a)
        (pendingRequests (loadPendingRequests ''u1'' 1000000 (Table example_table) home_init))
   \<and> ''processing'' \<notin> status ` set (pendingRequests
          (loadPendingRequests ''u1'' 1000000 (Table example_table) home_init)))"
proof -
  have v: "pendingRequests (loadPendingRequests ''u1'' 1000000 (Table example_table) home_init) =
     [example_row ''r2'' ''u1'' ''generating_text'' 900000,
      example_row ''r1'' ''u1'' ''queued'' 500000]"
    by (simp add: loadPendingRequests_def select_pending_def order_created_at_desc_def
        example_table_def processing_row_def example_row_def eq_user_id_def in_status_def
        pending_statuses_def gte_created_at_def)
  have srt: "sorted_wrt (\<lambda>a b. created_at b \<le> created_at a)
        (pendingRequests (loadPendingRequests ''u1'' 1000000 (Table example_table) home_init))"
    using reconcile_replaces_view [of "''u1''" 1000000 example_table home_init] by blast
  have "\<forall>r \<in> set (pendingRequests
          (loadPendingRequests ''u1'' 1000000 (Table example_table) home_init)).
        status r \<noteq> ''processing''"
    using reconcile_replaces_view [of "''u1''" 1000000 example_table home_init] by blast
  then have np: "''processing'' \<notin> status ` set (pendingRequests
          (loadPendingRequests ''u1'' 1000000 (Table example_table) home_init))"
    by auto
  note t = conjI [OF srt np]
  show ?thesis
    by (rule conjI [OF v t])
qed

text \<open>
  C2 as the specification words it fails: a row of the user with status \<^verbatim>\<open>processing\<close>,
  created 50 seconds before the call, is not in the reconciled list.
\<close>

theorem processing_request_not_reconciled:
  "spec_visible ''u1'' 1000000 example_table processing_row
   \<and> processing_row \<notin> set (pendingRequests
        (loadPendingRequests ''u1'' 1000000 (Table example_table) home_init))"
  by (simp add: spec_visible_def spec_non_terminal_statuses_def
      loadPendingRequests_def select_pending_def order_created_at_desc_def
      example_table_def processing_row_def example_row_def eq_user_id_def in_status_def
      pending_statuses_def gte_created_at_def)

text \<open>
  C3. A row created more than ten minutes before the call is not in the list after a
  reconciliation, whatever its status and whatever the store answers; every entry of the
  list after a reconciliation has a \<^verbatim>\<open>created_at\<close> that is at most ten minutes before
  the call.
\<close>

theorem reconcile_drops_old_requests:
  "(created_at r = Some c \<and> c < now - 10 * 60 * 1000
      \<longrightarrow> r \<notin> set (pendingRequests (loadPendingRequests uid now rem s)))
   \<and> (\<forall>r \<in> set (pendingRequests (loadPendingRequests uid now rem s)).
        \<exists>c. created_at r = Some c \<and> now - 10 * 60 * 1000 \<le> c)"
proof (cases rem)
  case (Table tbl)
  have "\<And>x. Some (now - 600000) \<le> created_at x \<Longrightarrow> \<exists>c. created_at x = Some c \<and> now - 600000 \<le> c"
    subgoal for x by (cases "created_at x") simp_all
    done
  then show ?thesis
    using Table by (auto simp: loadPendingRequests_Table set_select_pending)
next
  case (QueryError e)
  then show ?thesis by (simp add: loadPendingRequests_failed)
next
  case (QueryThrows e)
  then show ?thesis by (simp add: loadPendingRequests_failed)
qed

theorem reconcile_drops_old_requests_witness:
  "example_row ''r3'' ''u1'' ''queued'' 100000 \<in> set example_table
   \<and> created_at (example_row ''r3'' ''u1'' ''queued'' 100000) = Some 100000
   \<and> (100000::int) < 1000000 - 10 * 60 * 1000
   \<and> example_row ''r3'' ''u1'' ''queued'' 100000 \<notin> set (pendingRequests
        (loadPendingRequests ''u1'' 1000000 (Table example_table) home_init))
   \<and> pendingRequests (loadPendingRequests ''u1'' 1000000 (Table example_table) home_init) \<noteq> []"
  using reconcile_drops_old_requests [of "example_row ''r3'' ''u1'' ''queued'' 100000" 100000
      1000000 "''u1''" "Table example_table" home_init]
  by (simp add: loadPendingRequests_def select_pending_def order_created_at_desc_def
      example_table_def processing_row_def example_row_def eq_user_id_def in_status_def
      pending_statuses_def gte_created_at_def)

text \<open>
  C7, as the code has it. When the query answers with an error, or throws, the list is
  emptied; the error is written to the console and no dialog is shown.
\<close>

theorem reconcile_error_clears_view:
  "rem = QueryError e \<or> rem = QueryThrows e \<Longrightarrow>
     pendingRequests (loadPendingRequests uid now rem s) = []
     \<and> alerts (loadPendingRequests uid now rem s) = alerts s
     \<and> console_errors (loadPendingRequests uid now rem s) =
         console_errors s @ [''Error loading pending requests:'']"
  by (simp add: loadPendingRequests_failed)

theorem reconcile_error_clears_view_witness:
  "pendingRequests (trackNewRequest ''r1'' home_init) \<noteq> []
   \<and> pendingRequests (loadPendingRequests ''u1'' 1000000 (QueryThrows store_error)
        (trackNewRequest ''r1'' home_init)) = []
   \<and> alerts (loadPendingRequests ''u1'' 1000000 (QueryThrows store_error)
        (trackNewRequest ''r1'' home_init)) = []
   \<and> console_errors (loadPendingRequests ''u1'' 1000000 (QueryThrows store_error)
        (trackNewRequest ''r1'' home_init)) = [''Error loading pending requests:'']"
proof -
  have h: "QueryThrows store_error = QueryError store_error
           \<or> QueryThrows store_error = QueryThrows store_error"
    by simp
  show ?thesis
    using reconcile_error_clears_view [OF h, of "''u1''" 1000000 "trackNewRequest ''r1'' home_init"]
    by (simp add: trackNewRequest_def handleNewPendingRequestId_def home_init_def
        addPlaceholder_def)
qed

text \<open>
  C7 as the specification words it fails: a list that holds the placeholder of a new
  request is empty after a reconciliation whose query failed.
\<close>

theorem reconcile_error_keeps_view_counterexample:
  "pendingRequests (trackNewRequest ''r1'' home_init) = [placeholder ''r1'']
   \<and> pendingRequests (loadPendingRequests ''u1'' 1000000 (QueryError store_error)
        (trackNewRequest ''r1'' home_init)) = []
   \<and> pendingRequests (loadPendingRequests ''u1'' 1000000 (QueryError store_error)
        (trackNewRequest ''r1'' home_init)) \<noteq> pendingRequests (trackNewRequest ''r1'' home_init)"
  by (simp add: loadPendingRequests_def trackNewRequest_def handleNewPendingRequestId_def
      home_init_def addPlaceholder_def)

text \<open>
  C4, as the code has it. For an id that is not empty and is not the one the screen handled
  last, the list holds exactly one entry of that id after \<^verbatim>\<open>trackNewRequest\<close>, the
  placeholder, whatever the list held before; a second \<^verbatim>\<open>trackNewRequest\<close> with the
  same id is skipped by the guard on \<^verbatim>\<open>processedRequestIdRef\<close> and leaves the list as it
  is, so the list still holds exactly one. With the empty id, or with the id the screen
  handled last, \<^verbatim>\<open>trackNewRequest\<close> leaves the list as it is.
\<close>

theorem track_twice_one_entry:
  "(rid \<noteq> [] \<and> processedRequestIdRef s \<noteq> Some rid \<longrightarrow>
        entries_for rid (pendingRequests (trackNewRequest rid s)) = [placeholder rid]
        \<and> pendingRequests (trackNewRequest rid (trackNewRequest rid s)) =
            pendingRequests (trackNewRequest rid s)
        \<and> length (entries_for rid
              (pendingRequests (trackNewRequest rid (trackNewRequest rid s)))) = 1)
   \<and> (rid = [] \<or> processedRequestIdRef s = Some rid \<longrightarrow>
        pendingRequests (trackNewRequest rid s) = pendingRequests s)"
  by (auto simp: trackNewRequest_def handleNewPendingRequestId_def entries_for_addPlaceholder)

theorem track_twice_one_entry_witness:
  "''r1'' \<noteq> [] \<and> processedRequestIdRef home_init \<noteq> Some ''r1''
   \<and> entries_for ''r1'' (pendingRequests (trackNewRequest ''r1'' home_init)) = [placeholder ''r1'']
   \<and> length (entries_for ''r1''
        (pendingRequests (trackNewRequest ''r1'' (trackNewRequest ''r1'' home_init)))) = 1
   \<and> processedRequestIdRef tracked_and_reconciled = Some ''r5''
   \<and> pendingRequests (trackNewRequest ''r5'' tracked_and_reconciled) =
       pendingRequests tracked_and_reconciled"
proof -
  have h: "''r1'' \<noteq> [] \<and> processedRequestIdRef home_init \<noteq> Some ''r1''"
    by (simp add: home_init_def)
  have a: "entries_for ''r1'' (pendingRequests (trackNewRequest ''r1'' home_init)) =
             [placeholder ''r1'']
        \<and> length (entries_for ''r1''
             (pendingRequests (trackNewRequest ''r1'' (trackNewRequest ''r1'' home_init)))) = 1"
    using h track_twice_one_entry [of "''r1''" home_init] by blast
  have r: "processedRequestIdRef tracked_and_reconciled = Some ''r5''"
    by (simp add: tracked_and_reconciled_def home_run_def home_init_def
        handleNewPendingRequestId_def loadPendingRequests_def)
  have b: "pendingRequests (trackNewRequest ''r5'' tracked_and_reconciled) =
       pendingRequests tracked_and_reconciled"
    using r track_twice_one_entry [of "''r5''" tracked_and_reconciled] by blast
  show ?thesis
    using h a r b by (simp only: simp_thms)
qed

text \<open>
  C4 as the specification words it fails. The screen has tracked \<open>r5\<close> and then
  reconciled with a table in which \<open>r5\<close> is \<^verbatim>\<open>processing\<close>: the list holds no entry of
  \<open>r5\<close>, and the ref still holds \<open>r5\<close>. From this state two calls of
  \<^verbatim>\<open>trackNewRequest\<close> with \<open>r5\<close> leave no entry of \<open>r5\<close>.
\<close>

theorem track_twice_no_entry_counterexample:
  "pendingRequests tracked_and_reconciled =
     [example_row ''r2'' ''u1'' ''generating_text'' 900000,
      example_row ''r1'' ''u1'' ''queued'' 500000]
   \<and> entries_for ''r5'' (pendingRequests
        (trackNewRequest ''r5'' (trackNewRequest ''r5'' tracked_and_reconciled))) = []
   \<and> length (entries_for ''r5'' (pendingRequests
        (trackNewRequest ''r5'' (trackNewRequest ''r5'' tracked_and_reconciled)))) \<noteq> 1"
  by (simp add: tracked_and_reconciled_def home_run_def home_init_def trackNewRequest_def
      handleNewPendingRequestId_def addPlaceholder_def loadPendingRequests_def
      select_pending_def order_created_at_desc_def example_table_def processing_row_def
      example_row_def eq_user_id_def in_status_def pending_statuses_def gte_created_at_def
      entries_for_def)

text \<open>
  C9. When the delete answers with an error, or throws, the list stays as it was and the
  dialog \<open>Fehler\<close> is shown after the question. The list changes only when the user
  chose \<open>Abbrechen\<close> and the delete succeeded, and then the entries of that id are
  removed.
\<close>

theorem cancel_failure_keeps_view:
  "(del = Resolved (Some e) \<or> del = Threw e \<longrightarrow>
      pendingRequests (handleCancelRequest requestId Abbrechen del s) = pendingRequests s
      \<and> alerts (handleCancelRequest requestId Abbrechen del s) =
          alerts s @ [cancel_dialog, cancel_failed_alert])
   \<and> (pendingRequests (handleCancelRequest requestId c del s) \<noteq> pendingRequests s
        \<longrightarrow> c = Abbrechen \<and> del = Resolved None)
   \<and> pendingRequests (handleCancelRequest requestId Abbrechen (Resolved None) s) =
       filter (\<lambda>r. req_id r \<noteq> requestId) (pendingRequests s)"
  by (auto simp: handleCancelRequest_def cancel_catch_def Let_def
           split: choice.splits outcome.splits option.splits)

theorem cancel_failure_keeps_view_witness:
  "pendingRequests (handleCancelRequest ''r1'' Abbrechen (Resolved (Some store_error))
        (trackNewRequest ''r1'' home_init)) = [placeholder ''r1'']
   \<and> alerts (handleCancelRequest ''r1'' Abbrechen (Resolved (Some store_error))
        (trackNewRequest ''r1'' home_init)) = [cancel_dialog, cancel_failed_alert]
   \<and> pendingRequests (handleCancelRequest ''r1'' Abbrechen (Resolved None)
        (trackNewRequest ''r1'' home_init)) = []"
  using cancel_failure_keeps_view [of "Resolved (Some store_error)" store_error "''r1''"
      "trackNewRequest ''r1'' home_init" Abbrechen]
  by (simp add: trackNewRequest_def handleNewPendingRequestId_def home_init_def
      addPlaceholder_def placeholder_def)

text \<open>
  C10. After every sequence of events of the home screen, from its initial state, the list
  holds at most one entry of every id, as long as every table that answers a query holds
  every id at most once.
\<close>

theorem view_one_entry_per_id:
  "\<forall>ev \<in> set evs. keyed_by_id ev \<Longrightarrow>
     length (entries_for rid (pendingRequests (home_run evs home_init))) \<le> 1"
proof -
  assume "\<forall>ev \<in> set evs. keyed_by_id ev"
  moreover have "distinct (map req_id (pendingRequests home_init))"
    by (simp add: home_init_def)
  ultimately have "distinct (map req_id (pendingRequests (home_run evs home_init)))"
    by (simp add: distinct_ids_run)
  then show ?thesis
    by (rule distinct_ids_entries)
qed

theorem view_one_entry_per_id_witness:
  "list_all keyed_by_id example_home_events
   \<and> length (entries_for ''r1'' (pendingRequests (home_run example_home_events home_init))) \<le> 1
   \<and> entries_for ''r1'' (pendingRequests (home_run example_home_events home_init))
       = [placeholder ''r1'']"
proof -
  have l: "list_all keyed_by_id example_home_events"
    by (simp add: example_home_events_def example_table_def processing_row_def example_row_def)
  then have h: "\<forall>ev \<in> set example_home_events. keyed_by_id ev"
    by (simp add: list_all_iff)
  have v: "pendingRequests (home_run example_home_events home_init) = [placeholder ''r1'']"
    by (simp add: example_home_events_def home_run_def home_init_def
        handleNewPendingRequestId_def addPlaceholder_def loadPendingRequests_def
        handleCancelRequest_def placeholder_def)
  show ?thesis
    using l view_one_entry_per_id [OF h, of "''r1''"] v
    by (simp add: entries_for_def placeholder_def)
qed

section \<open>The answer of the invocation\<close>

lemma after_invoke_start:
  "update_processing env = Resolved uo \<Longrightarrow>
   after_invoke (startStoryGeneration requestId env) =
     (case invoke env of
             Threw e \<Rightarrow> start_catch requestId env e
           | Resolved None \<Rightarrow> []
           | Resolved (Some err) \<Rightarrow>
               if err_name err \<noteq> ''FunctionsFetchError''
               then ConsoleError ''Edge function error:'' #
                    UpdateRequest requestId ''failed'' (Some (err_message err))
                      (update_failed env) #
                    (case update_failed env of
                       Threw e \<Rightarrow> start_catch requestId env e
                     | Resolved u \<Rightarrow> [])
               else [ConsoleLog ''Edge function timeout - function continues in background''])"
  by (simp add: after_invoke_def startStoryGeneration_def)

lemma start_timeout_trace:
  assumes "update_processing env = Resolved uo"
      and "invoke env = Resolved (Some e) \<or> invoke env = Threw e"
      and "err_name e = ''FunctionsFetchError''"
  shows "\<exists>l. startStoryGeneration requestId env =
           [UpdateRequest requestId ''processing'' None (Resolved uo),
            InvokeCreateStory requestId, ConsoleLog l]"
  using assms by (auto simp: startStoryGeneration_def start_catch_def)

lemma update_row_status:
  assumes "r \<in> set (update_row rid st msg tbl)" and "req_id r = rid"
  shows "status r = st"
proof -
  obtain x where x: "x \<in> set tbl"
      "r = (if req_id x = rid
            then x\<lparr>status := st,
                   error_message := (case msg of None \<Rightarrow> error_message x | Some m \<Rightarrow> Some m)\<rparr>
            else x)"
    using assms(1) unfolding update_row_def by auto
  show ?thesis
  proof (cases "req_id x = rid")
    case True
    then show ?thesis using x(2) by simp
  next
    case False
    then show ?thesis using x(2) assms(2) by simp
  qed
qed

lemma update_row_message:
  assumes "r \<in> set (update_row rid st (Some m) tbl)" and "req_id r = rid"
  shows "error_message r = Some m"
proof -
  obtain x where x: "x \<in> set tbl"
      "r = (if req_id x = rid
            then x\<lparr>status := st, error_message := Some m\<rparr>
            else x)"
    using assms(1) unfolding update_row_def by auto
  show ?thesis
  proof (cases "req_id x = rid")
    case True
    then show ?thesis using x(2) by simp
  next
    case False
    then show ?thesis using x(2) assms(2) by simp
  qed
qed

lemma no_entries_select_pending:
  assumes "\<And>r. r \<in> set tbl \<Longrightarrow> req_id r = rid \<Longrightarrow> status r \<notin> set pending_statuses"
  shows "entries_for rid (select_pending uid t tbl) = []"
proof -
  have "req_id r \<noteq> rid" if "r \<in> set (select_pending uid t tbl)" for r
  proof -
    have "r \<in> set tbl" "status r \<in> set pending_statuses"
      using that by (simp_all add: set_select_pending pending_statuses_def)
    then show ?thesis
      using assms by blast
  qed
  then show ?thesis
    by (simp add: entries_for_def filter_empty_conv)
qed

lemma no_entries_after_update:
  assumes "st \<notin> set pending_statuses"
  shows "entries_for rid (pendingRequests
           (loadPendingRequests uid now (Table (update_row rid st msg tbl)) hs)) = []"
  unfolding loadPendingRequests_Table
  using assms update_row_status [of _ rid st msg tbl]
  by (intro no_entries_select_pending) auto

text \<open>
  C5, as the code has it. When the update to \<^verbatim>\<open>processing\<close> has resolved and the
  invocation ends with a \<^verbatim>\<open>FunctionsFetchError\<close> (the timeout of the client), returned
  in the response or thrown, the screen updates nothing after the invocation and logs no
  error: the table is as it was when the invocation was sent, and no row of the request
  has been set to \<^verbatim>\<open>failed\<close>. When the store accepted the update to \<^verbatim>\<open>processing\<close>,
  the row of the request has that status, and the list of the home screen holds no entry of
  the request after a reconciliation. When the store answered that update with an error,
  the table has not changed, and a reconciliation gives the list it would have given
  before the call.
\<close>

theorem timeout_is_not_an_error:
  assumes "update_processing env = Resolved uo"
      and "invoke env = Resolved (Some e) \<or> invoke env = Threw e"
      and "err_name e = ''FunctionsFetchError''"
  shows "filter is_update (after_invoke (startStoryGeneration requestId env)) = []
     \<and> filter is_console_error (startStoryGeneration requestId env) = []
     \<and> apply_effects (startStoryGeneration requestId env) tbl =
         (case uo of None \<Rightarrow> update_row requestId ''processing'' None tbl | Some e' \<Rightarrow> tbl)
     \<and> (\<forall>r \<in> set (apply_effects (startStoryGeneration requestId env) tbl).
          req_id r = requestId \<longrightarrow> status r = ''processing'' \<or> r \<in> set tbl)
     \<and> (uo = None \<longrightarrow>
          entries_for requestId (pendingRequests (loadPendingRequests uid now
            (Table (apply_effects (startStoryGeneration requestId env) tbl)) hs)) = [])
     \<and> (uo \<noteq> None \<longrightarrow>
          pendingRequests (loadPendingRequests uid now
            (Table (apply_effects (startStoryGeneration requestId env) tbl)) hs) =
          pendingRequests (loadPendingRequests uid now (Table tbl) hs))"
proof -
  let ?T = "startStoryGeneration requestId env"
  obtain l where tr: "?T =
      [UpdateRequest requestId ''processing'' None (Resolved uo),
       InvokeCreateStory requestId, ConsoleLog l]"
    using start_timeout_trace [OF assms] by blast
  have ai: "filter is_update (after_invoke ?T) = []"
    by (simp add: tr after_invoke_def)
  have ce: "filter is_console_error ?T = []"
    by (simp add: tr)
  have ap: "apply_effects ?T tbl =
         (case uo of None \<Rightarrow> update_row requestId ''processing'' None tbl | Some e' \<Rightarrow> tbl)"
    by (cases uo) (simp_all add: tr apply_effects_def)
  have rows: "status r = ''processing'' \<or> r \<in> set tbl"
    if "r \<in> set (apply_effects ?T tbl)" "req_id r = requestId" for r
  proof (cases uo)
    case None
    then show ?thesis
      using that update_row_status [of r requestId "''processing''" None tbl] by (simp add: ap)
  next
    case (Some e')
    then show ?thesis
      using that by (simp add: ap)
  qed
  have gone: "entries_for requestId (pendingRequests (loadPendingRequests uid now
            (Table (apply_effects ?T tbl)) hs)) = []" if "uo = None"
    using that by (simp add: ap no_entries_after_update pending_statuses_def)
  have same: "pendingRequests (loadPendingRequests uid now (Table (apply_effects ?T tbl)) hs) =
          pendingRequests (loadPendingRequests uid now (Table tbl) hs)" if "uo \<noteq> None"
    using that by (cases uo) (simp_all add: ap)
  show ?thesis
    using ai ce ap rows gone same by blast
qed

theorem timeout_is_not_an_error_witness:
  "update_processing (env_of (Resolved (Some timeout_error))) = Resolved None
   \<and> invoke (env_of (Resolved (Some timeout_error))) = Resolved (Some timeout_error)
   \<and> err_name timeout_error = ''FunctionsFetchError''
   \<and> filter is_update
         (after_invoke (startStoryGeneration ''r1'' (env_of (Resolved (Some timeout_error))))) = []
   \<and> apply_effects (startStoryGeneration ''r1'' (env_of (Resolved (Some timeout_error))))
         queued_table = [example_row ''r1'' ''u1'' ''processing'' 500000]
   \<and> entries_for ''r1'' (pendingRequests (loadPendingRequests ''u1'' 1000000
         (Table (apply_effects
            (startStoryGeneration ''r1'' (env_of (Resolved (Some timeout_error))))
            queued_table)) home_init)) = []
   \<and> update_processing
         ((env_of (Threw timeout_error))\<lparr>update_processing := Resolved (Some store_error)\<rparr>)
       = Resolved (Some store_error)
   \<and> pendingRequests (loadPendingRequests ''u1'' 1000000
         (Table (apply_effects
            (startStoryGeneration ''r1''
               ((env_of (Threw timeout_error))\<lparr>update_processing := Resolved (Some store_error)\<rparr>))
            queued_table)) home_init)
       = [example_row ''r1'' ''u1'' ''queued'' 500000]"
proof -
  let ?A = "env_of (Resolved (Some timeout_error))"
  let ?B = "(env_of (Threw timeout_error))\<lparr>update_processing := Resolved (Some store_error)\<rparr>"
  have a1: "update_processing ?A = Resolved None"
    by (simp add: env_of_def)
  have a2: "invoke ?A = Resolved (Some timeout_error)"
    by (simp add: env_of_def)
  have a3: "err_name timeout_error = ''FunctionsFetchError''"
    by (simp add: timeout_error_def)
  have ta: "filter is_update (after_invoke (startStoryGeneration ''r1'' ?A)) = []
     \<and> apply_effects (startStoryGeneration ''r1'' ?A) queued_table =
         update_row ''r1'' ''processing'' None queued_table
     \<and> entries_for ''r1'' (pendingRequests (loadPendingRequests ''u1'' 1000000
            (Table (apply_effects (startStoryGeneration ''r1'' ?A) queued_table)) home_init)) = []"
    using timeout_is_not_an_error [OF a1 disjI1 [OF a2] a3, of "''r1''" queued_table "''u1''"
        1000000 home_init]
    by (auto simp only: simp_thms option.case)
  have ra: "update_row ''r1'' ''processing'' None queued_table =
      [example_row ''r1'' ''u1'' ''processing'' 500000]"
    by (simp add: update_row_def queued_table_def example_row_def)
  have b1: "update_processing ?B = Resolved (Some store_error)"
    by (simp add: env_of_def)
  have b2: "invoke ?B = Threw timeout_error"
    by (simp add: env_of_def)
  have tb: "pendingRequests (loadPendingRequests ''u1'' 1000000
         (Table (apply_effects (startStoryGeneration ''r1'' ?B) queued_table)) home_init)
       = pendingRequests (loadPendingRequests ''u1'' 1000000 (Table queued_table) home_init)"
    using timeout_is_not_an_error [OF b1 disjI2 [OF b2] a3, of "''r1''" queued_table "''u1''"
        1000000 home_init]
    by (auto simp only: simp_thms option.distinct)
  have rb: "pendingRequests (loadPendingRequests ''u1'' 1000000 (Table queued_table) home_init)
      = [example_row ''r1'' ''u1'' ''queued'' 500000]"
    by (simp add: loadPendingRequests_def select_pending_def order_created_at_desc_def
        queued_table_def example_row_def eq_user_id_def in_status_def pending_statuses_def
        gte_created_at_def)
  note c4 = ta [THEN conjunct1]
  note c5 = trans [OF ta [THEN conjunct2, THEN conjunct1] ra]
  note c6 = ta [THEN conjunct2, THEN conjunct2]
  note c8 = trans [OF tb rb]
  show ?thesis
    by (intro conjI) (rule a1 a2 a3 c4 c5 c6 b1 c8)+
qed

text \<open>
  C5 as the specification words it fails. A reconciliation shows the queued request
  \<open>r1\<close>. Then the generation is started, the store accepts the update to
  \<^verbatim>\<open>processing\<close>, and the invocation times out: the status of the row has changed, and
  the list is empty after the next reconciliation.
\<close>

theorem timeout_hides_request_counterexample:
  "entries_for ''r1'' (pendingRequests
      (loadPendingRequests ''u1'' 1000000 (Table queued_table) home_init))
     = [example_row ''r1'' ''u1'' ''queued'' 500000]
   \<and> invoke (env_of (Resolved (Some timeout_error))) = Resolved (Some timeout_error)
   \<and> err_name timeout_error = ''FunctionsFetchError''
   \<and> apply_effects (startStoryGeneration ''r1'' (env_of (Resolved (Some timeout_error))))
         queued_table = [example_row ''r1'' ''u1'' ''processing'' 500000]
   \<and> pendingRequests (loadPendingRequests ''u1'' 1000000
         (Table (apply_effects
            (startStoryGeneration ''r1'' (env_of (Resolved (Some timeout_error))))
            queued_table)) home_init) = []"
  by (simp add: loadPendingRequests_def select_pending_def order_created_at_desc_def
      queued_table_def example_row_def eq_user_id_def in_status_def pending_statuses_def
      gte_created_at_def entries_for_def startStoryGeneration_def env_of_def
      timeout_error_def apply_effects_def update_row_def)

text \<open>
  C6, as the code has it. When the update to \<^verbatim>\<open>processing\<close> has resolved and the
  invocation returns an error whose name is not \<^verbatim>\<open>FunctionsFetchError\<close>, the screen logs
  the error and then updates the row to \<^verbatim>\<open>failed\<close> with the message of that error. The
  edge function is invoked once in the call, and no later event of the generating screen
  adds an effect: there is no retry. When the store accepts the update to \<^verbatim>\<open>failed\<close>,
  the row has status \<^verbatim>\<open>failed\<close> and that message, the generating screen shows the
  failure once its subscription delivers the row, and the list of the home screen holds no
  entry of the request after a reconciliation.
\<close>

theorem invocation_error_marks_failed:
  assumes "update_processing env = Resolved uo"
      and "invoke env = Resolved (Some e)"
      and "err_name e \<noteq> ''FunctionsFetchError''"
  shows "take 2 (after_invoke (startStoryGeneration requestId env)) =
           [ConsoleError ''Edge function error:'',
            UpdateRequest requestId ''failed'' (Some (err_message e)) (update_failed env)]
     \<and> length (filter is_invoke (startStoryGeneration requestId env)) = 1
     \<and> (update_failed env = Resolved None \<longrightarrow>
          (\<forall>r \<in> set (apply_effects (startStoryGeneration requestId env) tbl).
             req_id r = requestId \<longrightarrow>
               status r = ''failed'' \<and> error_message r = Some (err_message e)
               \<and> isFailed (generating_step s (RealtimeUpdate r)))
          \<and> entries_for requestId (pendingRequests (loadPendingRequests uid now
               (Table (apply_effects (startStoryGeneration requestId env) tbl)) hs)) = [])
     \<and> (status d = ''queued'' \<and> \<not> hasStartedGeneration s \<longrightarrow>
          effects (generating_run evs (loadRequest requestId (Some d) env s)) =
            effects s @ startStoryGeneration requestId env)"
proof -
  let ?T = "startStoryGeneration requestId env"
  have ai: "after_invoke ?T =
      ConsoleError ''Edge function error:'' #
      UpdateRequest requestId ''failed'' (Some (err_message e)) (update_failed env) #
      (case update_failed env of Threw e \<Rightarrow> start_catch requestId env e | Resolved u \<Rightarrow> [])"
    using assms by (simp add: after_invoke_start)
  have one: "length (filter is_invoke ?T) = 1"
    using assms
    by (simp add: startStoryGeneration_def start_catch_def split: outcome.splits)
  have ap: "\<exists>tbl1. apply_effects ?T tbl =
               update_row requestId ''failed'' (Some (err_message e)) tbl1"
    if "update_failed env = Resolved None"
    using that assms by (cases uo) (auto simp: startStoryGeneration_def apply_effects_def)
  have rows: "status r = ''failed'' \<and> error_message r = Some (err_message e)
               \<and> isFailed (generating_step s (RealtimeUpdate r))"
    if acc: "update_failed env = Resolved None" and mem: "r \<in> set (apply_effects ?T tbl)"
       and rid: "req_id r = requestId" for r
  proof -
    obtain tbl1 where "r \<in> set (update_row requestId ''failed'' (Some (err_message e)) tbl1)"
      using ap [OF acc] mem by auto
    then show ?thesis
      using update_row_status update_row_message rid by (simp add: isFailed_def)
  qed
  have gone: "entries_for requestId (pendingRequests (loadPendingRequests uid now
               (Table (apply_effects ?T tbl)) hs)) = []"
    if acc: "update_failed env = Resolved None"
  proof -
    obtain tbl1 where "apply_effects ?T tbl =
        update_row requestId ''failed'' (Some (err_message e)) tbl1"
      using ap [OF acc] by blast
    then show ?thesis
      by (simp add: no_entries_after_update pending_statuses_def)
  qed
  have retry: "effects (generating_run evs (loadRequest requestId (Some d) env s)) =
            effects s @ ?T"
    if "status d = ''queued''" "\<not> hasStartedGeneration s"
  proof -
    have "hasStartedGeneration (loadRequest requestId (Some d) env s)"
         "effects (loadRequest requestId (Some d) env s) = effects s @ ?T"
      using that by (simp_all add: loadRequest_def Let_def)
    then show ?thesis
      using started_run_effects by simp
  qed
  have "take 2 (after_invoke ?T) =
           [ConsoleError ''Edge function error:'',
            UpdateRequest requestId ''failed'' (Some (err_message e)) (update_failed env)]"
    by (simp add: ai)
  then show ?thesis
    using one rows gone retry by blast
qed

theorem invocation_error_marks_failed_witness:
  "update_processing (env_of (Resolved (Some http_error))) = Resolved None
   \<and> invoke (env_of (Resolved (Some http_error))) = Resolved (Some http_error)
   \<and> err_name http_error \<noteq> ''FunctionsFetchError''
   \<and> update_failed (env_of (Resolved (Some http_error))) = Resolved None
   \<and> startStoryGeneration ''r1'' (env_of (Resolved (Some http_error))) =
       [UpdateRequest ''r1'' ''processing'' None (Resolved None), InvokeCreateStory ''r1'',
        ConsoleError ''Edge function error:'',
        UpdateRequest ''r1'' ''failed'' (Some ''Edge Function returned a non-2xx status code'')
          (Resolved None)]
   \<and> length (filter is_invoke
         (startStoryGeneration ''r1'' (env_of (Resolved (Some http_error))))) = 1
   \<and> map (\<lambda>r. (status r, error_message r)) (entries_for ''r1''
         (apply_effects (startStoryGeneration ''r1'' (env_of (Resolved (Some http_error))))
            queued_table)) =
       [(''failed'', Some ''Edge Function returned a non-2xx status code'')]
   \<and> entries_for ''r1'' (pendingRequests (loadPendingRequests ''u1'' 1000000
         (Table (apply_effects
            (startStoryGeneration ''r1'' (env_of (Resolved (Some http_error))))
            queued_table)) home_init)) = []
   \<and> effects (generating_run example_loads
         (loadRequest ''r1'' (Some (example_row ''r1'' ''u1'' ''queued'' 500000))
            (env_of (Resolved (Some http_error))) generating_init)) =
       startStoryGeneration ''r1'' (env_of (Resolved (Some http_error)))"
proof -
  let ?env = "env_of (Resolved (Some http_error))"
  let ?d = "example_row ''r1'' ''u1'' ''queued'' 500000"
  have h1: "update_processing ?env = Resolved None"
    by (simp add: env_of_def)
  have h2: "invoke ?env = Resolved (Some http_error)"
    by (simp add: env_of_def)
  have h3: "err_name http_error \<noteq> ''FunctionsFetchError''"
    by (simp add: http_error_def)
  have h4: "update_failed ?env = Resolved None"
    by (simp add: env_of_def)
  have h5: "status ?d = ''queued'' \<and> \<not> hasStartedGeneration generating_init"
    by (simp add: example_row_def generating_init_def)
  have tr: "startStoryGeneration ''r1'' ?env =
       [UpdateRequest ''r1'' ''processing'' None (Resolved None), InvokeCreateStory ''r1'',
        ConsoleError ''Edge function error:'',
        UpdateRequest ''r1'' ''failed'' (Some ''Edge Function returned a non-2xx status code'')
          (Resolved None)]"
    by (simp add: startStoryGeneration_def env_of_def http_error_def)
  have ex: "map (\<lambda>r. (status r, error_message r)) (entries_for ''r1''
         (apply_effects (startStoryGeneration ''r1'' ?env) queued_table)) =
       [(''failed'', Some ''Edge Function returned a non-2xx status code'')]"
    unfolding tr
    by (simp add: apply_effects_def update_row_def entries_for_def queued_table_def
        example_row_def)
  have t: "length (filter is_invoke (startStoryGeneration ''r1'' ?env)) = 1
     \<and> entries_for ''r1'' (pendingRequests (loadPendingRequests ''u1'' 1000000
          (Table (apply_effects (startStoryGeneration ''r1'' ?env) queued_table)) home_init)) = []
     \<and> effects (generating_run example_loads (loadRequest ''r1'' (Some ?d) ?env generating_init))
         = effects generating_init @ startStoryGeneration ''r1'' ?env"
    using h4 h5 invocation_error_marks_failed [OF h1 h2 h3, of "''r1''" queued_table
        generating_init "''u1''" 1000000 home_init ?d example_loads]
    by blast
  have i: "effects generating_init = []"
    by (simp add: generating_init_def)
  note c6 = t [THEN conjunct1]
  note c8 = t [THEN conjunct2, THEN conjunct1]
  have c9: "effects (generating_run example_loads
         (loadRequest ''r1'' (Some ?d) ?env generating_init)) =
       startStoryGeneration ''r1'' ?env"
    using t [THEN conjunct2, THEN conjunct2] i by (simp only: append_Nil)
  show ?thesis
    by (intro conjI) (rule h1 h2 h3 h4 tr c6 ex c8 c9)+
qed

text \<open>
  C6 as the specification words it fails. The invocation for the queued request \<open>r1\<close>
  returns an error that is no timeout and the store accepts both updates: the row is
  \<^verbatim>\<open>failed\<close> with the message, and the list of the home screen is empty after the next
  reconciliation, so the list does not show the failure.
\<close>

theorem failure_not_in_tracked_view_counterexample:
  "invoke (env_of (Resolved (Some http_error))) = Resolved (Some http_error)
   \<and> err_name http_error \<noteq> ''FunctionsFetchError''
   \<and> map (\<lambda>r. (req_id r, status r, error_message r))
         (apply_effects (startStoryGeneration ''r1'' (env_of (Resolved (Some http_error))))
            queued_table) =
       [(''r1'', ''failed'', Some ''Edge Function returned a non-2xx status code'')]
   \<and> pendingRequests (loadPendingRequests ''u1'' 1000000
         (Table (apply_effects
            (startStoryGeneration ''r1'' (env_of (Resolved (Some http_error))))
            queued_table)) home_init) = []"
  by (simp add: loadPendingRequests_def select_pending_def order_created_at_desc_def
      queued_table_def example_row_def eq_user_id_def in_status_def pending_statuses_def
      gte_created_at_def startStoryGeneration_def env_of_def
      http_error_def apply_effects_def update_row_def)

end
